theory Spec2Isabelle
  imports Complex_Main "HOL-Library.AList" "HOL-Library.Multiset"
    "HOL-Library.List_Lexorder" "HOL-Library.Char_ord"
begin

section \<open>Values, dictionaries and data frames\<close>

text \<open>
  The value that \<^verbatim>\<open>json.load\<close> hands to the program. Numbers are kept as exact
  rationals, Python's \<^verbatim>\<open>None\<close> is \<open>JNull\<close>. An object is the list of its
  items in insertion order; a key is looked up with \<open>map_of\<close>.
\<close>

datatype json =
    JNull
  | JBool bool
  | JNum rat
  | JStr string
  | JArr "json list"
  | JObj "(string \<times> json) list"

type_synonym pydict = "(string \<times> json) list"

text \<open>\<^verbatim>\<open>d.get(k)\<close>: the value, or \<^verbatim>\<open>None\<close> when the key is absent.\<close>

definition dict_get :: "pydict \<Rightarrow> string \<Rightarrow> json" where
  "dict_get d k = (case map_of d k of None \<Rightarrow> JNull | Some v \<Rightarrow> v)"

text \<open>
  \<^verbatim>\<open>d.update(other)\<close>: every item of \<open>other\<close> is stored into \<open>d\<close>; an existing key
  keeps its position and takes the new value, a new key is appended.
\<close>

definition dict_update :: "pydict \<Rightarrow> pydict \<Rightarrow> pydict" where
  "dict_update d other =
     fold (\<lambda>kv acc. AList.update (fst kv) (snd kv) acc) (AList.clearjunk other) d"

text \<open>Instants are nanoseconds since the epoch, in UTC; dates are days since the epoch.\<close>

type_synonym instant = int
type_synonym date = int

text \<open>
  One row of the data frame: the flattened record it was built from, and the value of
  its \<^verbatim>\<open>timestamp\<close> column after conversion (\<open>None\<close> is \<^verbatim>\<open>NaT\<close>).
\<close>

record row =
  r_cells :: pydict
  r_ts :: "instant option"

text \<open>
  A data frame: its column labels, the labels of the columns whose dtype is numeric
  (fixed when the frame is built, kept by every row selection), and its rows.
\<close>

record dataframe =
  df_columns :: "string list"
  df_numeric :: "string list"
  df_rows :: "row list"

definition empty_frame :: dataframe where
  "empty_frame = \<lparr>df_columns = [], df_numeric = [], df_rows = []\<rparr>"

text \<open>\<^verbatim>\<open>df.empty\<close>: some axis has length zero.\<close>

definition df_empty :: "dataframe \<Rightarrow> bool" where
  "df_empty df = (df_columns df = [] \<or> df_rows df = [])"

section \<open>utils/data\_processing.py: load\_and\_process\_data\<close>

datatype error = IngestError | SchemaError

text \<open>
  The uploaded file: none, one whose content \<^verbatim>\<open>json.load\<close> rejects (or that cannot
  be read), or one that parses to a value.
\<close>

datatype upload = NoFile | Malformed | Parsed json

text \<open>
  \<^verbatim>\<open>for entry in data\<close>: a list yields its elements, a dict its keys, a string its
  characters; anything else is not iterable (\<open>None\<close>: the TypeError).
\<close>

fun iter_json :: "json \<Rightarrow> json list option" where
  "iter_json (JArr xs) = Some xs"
| "iter_json (JObj kvs) = Some (map (\<lambda>kv. JStr (fst kv)) kvs)"
| "iter_json (JStr s) = Some (map (\<lambda>c. JStr [c]) s)"
| "iter_json _ = None"

text \<open>
  The loop body (lines 16-22). \<^verbatim>\<open>entry.get\<close> exists on a dict only: any other
  entry raises AttributeError (\<open>None\<close>).
\<close>

fun flat_record :: "json \<Rightarrow> pydict option" where
  "flat_record (JObj entry) =
     Some (let fr = [(''pld'', dict_get entry ''pld''),
                     (''asset_type'', dict_get entry ''asset_type''),
                     (''timestamp'', dict_get entry ''timestamp'')]
           in (case map_of entry ''parameters'' of
                 Some (JObj ps) \<Rightarrow> dict_update fr ps
               | _ \<Rightarrow> fr))"
| "flat_record _ = None"

fun flatten_all :: "json list \<Rightarrow> pydict list option" where
  "flatten_all [] = Some []"
| "flatten_all (e # es) =
     (case flat_record e of
        None \<Rightarrow> None
      | Some fr \<Rightarrow> (case flatten_all es of None \<Rightarrow> None | Some frs \<Rightarrow> Some (fr # frs)))"

text \<open>
  \<^verbatim>\<open>pd.DataFrame(records)\<close>: the columns are the keys of the records, each at its
  first appearance.
\<close>

definition first_seen :: "'a list \<Rightarrow> 'a list" where
  "first_seen xs = rev (remdups (rev xs))"

definition frame_columns :: "pydict list \<Rightarrow> string list" where
  "frame_columns records = first_seen (concat (map (map fst) records))"

text \<open>\<^verbatim>\<open>df.dropna(subset=['timestamp'])\<close>.\<close>

definition dropna :: "row list \<Rightarrow> row list" where
  "dropna rs = filter (\<lambda>r. r_ts r \<noteq> None) rs"

text \<open>
  The two library functions are parameters. \<open>parse col v\<close> is the element that
  \<^verbatim>\<open>pd.to_datetime(col, errors='coerce', utc=True)\<close> gives for the element \<open>v\<close> of the
  column \<open>col\<close>: a UTC instant, or \<open>None\<close> (\<^verbatim>\<open>NaT\<close>) when \<open>v\<close> does not parse.
  \<open>is_number cells\<close> says whether the frame constructor gives a column with these
  cells (\<open>None\<close>: the record has no such key) a numeric dtype.
\<close>

definition load_and_process_data ::
  "(json list \<Rightarrow> json \<Rightarrow> instant option) \<Rightarrow> (json option list \<Rightarrow> bool) \<Rightarrow> upload
     \<Rightarrow> dataframe \<times> error option" where
  "load_and_process_data parse is_number uploaded_file =
     (case uploaded_file of
        NoFile \<Rightarrow> (empty_frame, None)
      | Malformed \<Rightarrow> (empty_frame, Some IngestError)
      | Parsed data \<Rightarrow>
          (case iter_json data of
             None \<Rightarrow> (empty_frame, Some IngestError)
           | Some entries \<Rightarrow>
               (case flatten_all entries of
                  None \<Rightarrow> (empty_frame, Some IngestError)
                | Some records \<Rightarrow>
                    (let cols = frame_columns records in
                     if ''timestamp'' \<notin> set cols then (empty_frame, Some SchemaError)
                     else
                       (let col = map (\<lambda>fr. dict_get fr ''timestamp'') records;
                            numeric = filter (\<lambda>c. c \<noteq> ''timestamp'' \<and>
                                         is_number (map (\<lambda>fr. map_of fr c) records)) cols;
                            rs = map (\<lambda>fr. \<lparr>r_cells = fr, r_ts = parse col (dict_get fr ''timestamp'')\<rparr>)
                                     records
                        in (\<lparr>df_columns = cols, df_numeric = numeric, df_rows = dropna rs\<rparr>,
                            None))))))"

section \<open>Chart configurations and the session\<close>

datatype chart_kind = LineChart | TabularData | BigNumber | Gauge
datatype display = Individual | Grouped
datatype agg = AggSum | AggMean

text \<open>
  The configuration dict built by the dialog; a key the dialog does not set is \<open>None\<close>.
\<close>

record chart_config =
  asset_type :: json
  ctype :: chart_kind
  parameter :: "string option"
  display_mode :: "display option"
  aggregation :: "agg option"
  parameters :: "string list option"
  min_val :: "int option"
  max_val :: "int option"

record session =
  data :: dataframe
  charts :: "chart_config list"
  show_modal :: bool

section \<open>pages/Dashboard.py: the date range and the slice of one chart\<close>

definition ns_per_second :: int where
  "ns_per_second = 1000000000"

definition ns_per_day :: int where
  "ns_per_day = 86400 * ns_per_second"

text \<open>
  \<^verbatim>\<open>pd.Timestamp(d, tz=df_timezone)\<close>: the column is UTC (\<^verbatim>\<open>utc=True\<close>), so this is
  midnight UTC of the date.
\<close>

definition Timestamp :: "date \<Rightarrow> instant" where
  "Timestamp d = d * ns_per_day"

definition from_datetime :: "date \<Rightarrow> instant" where
  "from_datetime from_date = Timestamp from_date"

text \<open>Line 40: \<^verbatim>\<open>Timestamp(to_date) + Timedelta(days=1) - Timedelta(seconds=1)\<close>.\<close>

definition to_datetime :: "date \<Rightarrow> instant" where
  "to_datetime to_date = Timestamp to_date + ns_per_day - ns_per_second"

text \<open>
  \<^verbatim>\<open>df['asset_type'] == v\<close> for one row: a missing or null cell compares unequal.
\<close>

definition asset_type_is :: "json \<Rightarrow> row \<Rightarrow> bool" where
  "asset_type_is v r = (v \<noteq> JNull \<and> map_of (r_cells r) ''asset_type'' = Some v)"

definition in_range :: "instant \<Rightarrow> instant \<Rightarrow> row \<Rightarrow> bool" where
  "in_range lo hi r = (case r_ts r of None \<Rightarrow> False | Some t \<Rightarrow> lo \<le> t \<and> t \<le> hi)"

definition chart_df :: "dataframe \<Rightarrow> chart_config \<Rightarrow> date \<Rightarrow> date \<Rightarrow> dataframe" where
  "chart_df df config from_date to_date =
     df\<lparr>df_rows := filter (\<lambda>r. asset_type_is (asset_type config) r \<and>
                              in_range (from_datetime from_date) (to_datetime to_date) r)
                         (df_rows df)\<rparr>"

text \<open>The last microsecond of a date, and the first instant of the next one.\<close>

definition end_of_day_us :: "date \<Rightarrow> instant" where
  "end_of_day_us d = Timestamp d + ns_per_day - 1000"

definition next_midnight :: "date \<Rightarrow> instant" where
  "next_midnight d = Timestamp (d + 1)"

definition pump_row :: "instant \<Rightarrow> row" where
  "pump_row t = \<lparr>r_cells = [(''pld'', JStr ''A1''), (''asset_type'', JStr ''Pump''),
                              (''timestamp'', JNum (of_int t)), (''flow'', JNum 5)],
                  r_ts = Some t\<rparr>"

definition pump_frame :: "instant list \<Rightarrow> dataframe" where
  "pump_frame ts = \<lparr>df_columns = [''pld'', ''asset_type'', ''timestamp'', ''flow''],
                     df_numeric = [''flow''], df_rows = map pump_row ts\<rparr>"

definition pump_line :: chart_config where
  "pump_line = \<lparr>asset_type = JStr ''Pump'', ctype = LineChart, parameter = Some ''flow'',
                  display_mode = Some Individual, aggregation = None, parameters = None,
                  min_val = None, max_val = None\<rparr>"

section \<open>Home.py: the upload handler\<close>

text \<open>
  Lines 35-41 (the same statements are in streamlit\_app.py, lines 170-177): the result
  of the load is stored, and the charts are reset when the stored frame is not empty.
\<close>

definition upload_handler ::
  "(json list \<Rightarrow> json \<Rightarrow> instant option) \<Rightarrow> (json option list \<Rightarrow> bool) \<Rightarrow> upload
     \<Rightarrow> session \<Rightarrow> session" where
  "upload_handler parse is_number uploaded_file st =
     (case uploaded_file of
        NoFile \<Rightarrow> st
      | _ \<Rightarrow>
          (let st1 = st\<lparr>data := fst (load_and_process_data parse is_number uploaded_file)\<rparr>
           in if \<not> df_empty (data st1) then st1\<lparr>charts := []\<rparr> else st1))"

section \<open>Sample data\<close>

text \<open>
  Sample data. At the concrete inputs below the library parameters are instantiated
  with \<open>parse_epoch\<close>, which reads a number as nanoseconds since the epoch and gives
  \<^verbatim>\<open>NaT\<close> for \<^verbatim>\<open>None\<close> (as the library does for these two kinds of value; no
  other kind is used), and \<open>numbers_only\<close>, which types a column numeric when every
  cell present is a number.
\<close>

definition parse_epoch :: "json list \<Rightarrow> json \<Rightarrow> instant option" where
  "parse_epoch col v = (case v of JNum q \<Rightarrow> Some \<lfloor>q\<rfloor> | _ \<Rightarrow> None)"

definition numbers_only :: "json option list \<Rightarrow> bool" where
  "numbers_only cells = list_all (\<lambda>c. case c of Some (JNum q) \<Rightarrow> True | None \<Rightarrow> True | _ \<Rightarrow> False) cells"

definition two_entries :: "json list" where
  "two_entries =
     [JObj [(''pld'', JStr ''A1''), (''asset_type'', JStr ''Pump''), (''timestamp'', JNum 5),
            (''parameters'', JObj [(''flow'', JNum 5)])],
      JObj [(''pld'', JStr ''A1''), (''asset_type'', JStr ''Pump''),
            (''parameters'', JObj [(''flow'', JNum 9)])]]"

definition two_entries_frame :: dataframe where
  "two_entries_frame =
     \<lparr>df_columns = [''pld'', ''asset_type'', ''timestamp'', ''flow''],
      df_numeric = [''flow''],
      df_rows = [\<lparr>r_cells = [(''pld'', JStr ''A1''), (''asset_type'', JStr ''Pump''),
                               (''timestamp'', JNum 5), (''flow'', JNum 5)],
                   r_ts = Some 5\<rparr>]\<rparr>"

definition reserved_entry :: "(string \<times> json) list" where
  "reserved_entry =
     [(''pld'', JStr ''A1''), (''asset_type'', JStr ''Pump''), (''timestamp'', JNull),
      (''parameters'', JObj [(''flow'', JNum 5), (''timestamp'', JNum 7), (''pld'', JStr ''B2'')])]"

definition undated_entries :: "json list" where
  "undated_entries =
     [JObj [(''pld'', JStr ''A1''), (''asset_type'', JStr ''Pump''), (''timestamp'', JNull),
            (''parameters'', JObj [(''flow'', JNum 5)])]]"

definition busy_session :: session where
  "busy_session = \<lparr>data = two_entries_frame, charts = [pump_line], show_modal = False\<rparr>"

section \<open>utils/charting.py: the library operations on a frame\<close>

definition pld :: "row \<Rightarrow> json" where
  "pld r = dict_get (r_cells r) ''pld''"

text \<open>
  The value of a row in a numeric column: a number, or \<open>None\<close> (\<^verbatim>\<open>NaN\<close>) where the
  record has no such key or has \<^verbatim>\<open>None\<close> there.
\<close>

definition num_value :: "string \<Rightarrow> row \<Rightarrow> rat option" where
  "num_value c r = (case map_of (r_cells r) c of Some (JNum q) \<Rightarrow> Some q | _ \<Rightarrow> None)"

text \<open>The values that are present (\<^verbatim>\<open>skipna\<close>).\<close>

fun present :: "'a option list \<Rightarrow> 'a list" where
  "present [] = []"
| "present (None # xs) = present xs"
| "present (Some v # xs) = v # present xs"

text \<open>
  \<^verbatim>\<open>groupby('pld')\<close>: one group for each value of the column other than \<^verbatim>\<open>None\<close>,
  the groups in ascending order of the key (numbers before strings), each group holding
  its rows in the order of the frame. Rows without a pld are in no group.
\<close>

fun key_le :: "json \<Rightarrow> json \<Rightarrow> bool" where
  "key_le (JNum a) (JNum b) = (a \<le> b)"
| "key_le (JNum a) (JStr b) = True"
| "key_le (JStr a) (JNum b) = False"
| "key_le (JStr a) (JStr b) = (a \<le> b)"
| "key_le _ _ = True"

fun insert_key :: "json \<Rightarrow> json list \<Rightarrow> json list" where
  "insert_key k [] = [k]"
| "insert_key k (x # xs) = (if key_le k x then k # x # xs else x # insert_key k xs)"

definition sort_keys :: "json list \<Rightarrow> json list" where
  "sort_keys ks = foldr insert_key ks []"

definition group_keys :: "row list \<Rightarrow> json list" where
  "group_keys rs = sort_keys (first_seen (filter (\<lambda>k. k \<noteq> JNull) (map pld rs)))"

definition group_rows :: "json \<Rightarrow> row list \<Rightarrow> row list" where
  "group_rows k rs = filter (\<lambda>r. pld r = k) rs"

text \<open>
  \<^verbatim>\<open>sort_values('timestamp')\<close> is a parameter \<open>srt\<close> of the functions below. It
  returns the rows in ascending order of the timestamp (\<^verbatim>\<open>NaT\<close> last) and loses
  none.
\<close>

fun ts_le :: "instant option \<Rightarrow> instant option \<Rightarrow> bool" where
  "ts_le (Some a) (Some b) = (a \<le> b)"
| "ts_le _ None = True"
| "ts_le None (Some b) = False"

definition sorts_by_timestamp :: "(row list \<Rightarrow> row list) \<Rightarrow> bool" where
  "sorts_by_timestamp srt =
     (\<forall>rs. mset (srt rs) = mset rs \<and> sorted_wrt (\<lambda>a b. ts_le (r_ts a) (r_ts b)) (srt rs))"


section \<open>utils/charting.py: render\_line\_chart\<close>

record series =
  s_name :: json
  s_data :: "(instant option \<times> rat option) list"

definition point :: "string \<Rightarrow> row \<Rightarrow> instant option \<times> rat option" where
  "point param r = (r_ts r, num_value param r)"

text \<open>Lines 7-13: one series for each group, its rows sorted by timestamp.\<close>

definition individual_series :: "(row list \<Rightarrow> row list) \<Rightarrow> string \<Rightarrow> row list \<Rightarrow> series list" where
  "individual_series srt param rs =
     map (\<lambda>k. \<lparr>s_name = k, s_data = map (point param) (srt (group_rows k rs))\<rparr>) (group_keys rs)"

text \<open>
  Line 19, \<^verbatim>\<open>groupby(pd.Grouper(key='timestamp', freq='D'))\<close>: the bins are the
  calendar days (UTC) from the day of the earliest row to the day of the latest one,
  every day between them included; a frame without rows has no bin.
\<close>

definition day_of :: "instant \<Rightarrow> date" where
  "day_of t = t div ns_per_day"

definition day_bins :: "row list \<Rightarrow> date list" where
  "day_bins rs =
     (let ds = map day_of (present (map r_ts rs))
      in if ds = [] then [] else [Min (set ds)..Max (set ds)])"

definition bucket :: "date \<Rightarrow> row list \<Rightarrow> row list" where
  "bucket d rs = filter (\<lambda>r. case r_ts r of None \<Rightarrow> False | Some t \<Rightarrow> day_of t = d) rs"

text \<open>
  \<^verbatim>\<open>.agg('sum')\<close>, \<^verbatim>\<open>.agg('mean')\<close> on the rows of a bin and \<^verbatim>\<open>.sum()\<close>,
  \<^verbatim>\<open>.mean()\<close> on a column skip the cells without a value. The library adds in the
  machine arithmetic of the column (64-bit integers wrap around, floats round), so the
  reduction of cells of which at least one has a value is a parameter: \<open>reduce a xs\<close> is
  the sum or the mean that the library returns for the cells \<open>xs\<close> (\<open>None\<close>: not a
  finite number). Without any value the result is fixed: the sum is 0, the mean is
  \<^verbatim>\<open>NaN\<close> (\<open>None\<close>).
\<close>

definition agg_cells ::
  "(agg \<Rightarrow> 'c list \<Rightarrow> rat option) \<Rightarrow> ('c \<Rightarrow> rat option) \<Rightarrow> agg \<Rightarrow> 'c list \<Rightarrow> rat option" where
  "agg_cells reduce val a xs =
     (if present (map val xs) = []
      then (case a of AggSum \<Rightarrow> Some 0 | AggMean \<Rightarrow> None)
      else reduce a xs)"

definition grouped_points ::
  "(agg \<Rightarrow> (instant option \<times> rat option) list \<Rightarrow> rat option) \<Rightarrow> agg \<Rightarrow> string \<Rightarrow> row list
     \<Rightarrow> (date \<times> rat option) list" where
  "grouped_points bin_agg a param rs =
     map (\<lambda>d. (d, agg_cells bin_agg snd a (map (point param) (bucket d rs)))) (day_bins rs)"

definition agg_name :: "agg \<Rightarrow> string" where
  "agg_name a = (case a of AggSum \<Rightarrow> ''sum'' | AggMean \<Rightarrow> ''mean'')"

text \<open>
  The series of the chart options; \<open>None\<close> is the KeyError of a key that the
  configuration lacks or of a parameter that is not a column of the frame. The frame
  is a slice of a loaded one (it has the columns pld and timestamp), and the parameter
  of a configuration is taken from the numeric columns.
\<close>

definition render_line_chart ::
  "(row list \<Rightarrow> row list) \<Rightarrow> (agg \<Rightarrow> (instant option \<times> rat option) list \<Rightarrow> rat option)
     \<Rightarrow> dataframe \<Rightarrow> chart_config \<Rightarrow> series list option" where
  "render_line_chart srt bin_agg df config =
     (case display_mode config of
        None \<Rightarrow> None
      | Some Individual \<Rightarrow>
          (if group_keys (df_rows df) = [] then Some []
           else (case parameter config of
                   None \<Rightarrow> None
                 | Some param \<Rightarrow>
                     if param \<in> set (df_columns df)
                     then Some (individual_series srt param (df_rows df)) else None))
      | Some Grouped \<Rightarrow>
          (case aggregation config of
             None \<Rightarrow> None
           | Some a \<Rightarrow>
               (case parameter config of
                  None \<Rightarrow> None
                | Some param \<Rightarrow>
                    if param \<in> set (df_columns df)
                    then Some [\<lparr>s_name = JStr (param @ '' ('' @ agg_name a @ '')''),
                                s_data = map (\<lambda>p. (Some (Timestamp (fst p)), snd p))
                                           (grouped_points bin_agg a param (df_rows df))\<rparr>]
                    else None)))"

section \<open>utils/charting.py: render\_big\_number\<close>




section \<open>utils/charting.py: configure\_chart\_dialog\<close>

text \<open>
  What the user does in the dialog: the positions chosen in the select boxes, the
  radio buttons, the columns ticked in the multiselect, the two numbers, and whether
  the button is pressed.
\<close>

record dialog_input =
  asset_choice :: nat
  type_choice :: chart_kind
  parameter_choice :: nat
  mode_choice :: display
  aggregation_choice :: agg
  columns_choice :: "string list"
  min_input :: int
  max_input :: int
  add_clicked :: bool

text \<open>\<^verbatim>\<open>st.selectbox\<close>: the option chosen, the first one by default, \<^verbatim>\<open>None\<close> without options.\<close>

definition selectbox :: "'a list \<Rightarrow> nat \<Rightarrow> 'a option" where
  "selectbox options i =
     (if options = [] then None else Some (options ! (if i < length options then i else 0)))"

definition unique_asset_types :: "dataframe \<Rightarrow> json list" where
  "unique_asset_types df = first_seen (map (\<lambda>r. dict_get (r_cells r) ''asset_type'') (df_rows df))"

text \<open>Lines 82-84: the slice of one asset type and the two option domains.\<close>

definition modal_df :: "dataframe \<Rightarrow> json \<Rightarrow> dataframe" where
  "modal_df df modal_asset_type = df\<lparr>df_rows := filter (asset_type_is modal_asset_type) (df_rows df)\<rparr>"

definition numeric_cols :: "dataframe \<Rightarrow> json \<Rightarrow> string list" where
  "numeric_cols df modal_asset_type =
     filter (\<lambda>c. c \<in> set (df_numeric (modal_df df modal_asset_type)))
            (df_columns (modal_df df modal_asset_type))"

definition all_cols :: "dataframe \<Rightarrow> json \<Rightarrow> string list" where
  "all_cols df modal_asset_type = df_columns (modal_df df modal_asset_type)"

definition dialog_config :: "dataframe \<Rightarrow> dialog_input \<Rightarrow> chart_config" where
  "dialog_config df inp =
     (let modal_asset_type =
            (case selectbox (unique_asset_types df) (asset_choice inp) of
               None \<Rightarrow> JNull | Some v \<Rightarrow> v);
          base = \<lparr>asset_type = modal_asset_type, ctype = type_choice inp, parameter = None,
                  display_mode = None, aggregation = None, parameters = None,
                  min_val = None, max_val = None\<rparr>;
          param = selectbox (numeric_cols df modal_asset_type) (parameter_choice inp)
      in (case type_choice inp of
            LineChart \<Rightarrow>
              base\<lparr>parameter := param, display_mode := Some (mode_choice inp),
                   aggregation := (if mode_choice inp = Grouped
                                   then Some (aggregation_choice inp) else None)\<rparr>
          | TabularData \<Rightarrow>
              base\<lparr>parameters := Some (filter (\<lambda>c. c \<in> set (all_cols df modal_asset_type))
                                            (columns_choice inp))\<rparr>
          | BigNumber \<Rightarrow>
              base\<lparr>parameter := param, aggregation := Some (aggregation_choice inp)\<rparr>
          | Gauge \<Rightarrow>
              base\<lparr>parameter := param, min_val := Some (min_input inp),
                   max_val := Some (max_input inp)\<rparr>))"

text \<open>Lines 76-108, the body of the \<^verbatim>\<open>with\<close> statement.\<close>

definition dialog_body :: "dataframe \<Rightarrow> dialog_input \<Rightarrow> session \<Rightarrow> session" where
  "dialog_body df inp st =
     (if add_clicked inp
      then st\<lparr>charts := charts st @ [dialog_config df inp], show_modal := False\<rparr>
      else st)"

text \<open>
  Line 75, \<^verbatim>\<open>with st.dialog("Configure New Chart"):\<close>. \<^verbatim>\<open>st.dialog(title)\<close> returns a
  decorator, a function, and a function is not a context manager: the statement raises
  TypeError before the first statement of its body. The function returns the session
  as the call leaves it, and the exception it ends with. \<open>ConfigError\<close> is the
  exception of a rejected configuration; no statement of the source raises it.
\<close>

datatype dialog_error = TypeError | ConfigError

definition with_st_dialog :: "session \<Rightarrow> session \<Rightarrow> session \<times> dialog_error option" where
  "with_st_dialog st body = (st, Some TypeError)"

definition configure_chart_dialog ::
  "dataframe \<Rightarrow> dialog_input \<Rightarrow> session \<Rightarrow> session \<times> dialog_error option" where
  "configure_chart_dialog df inp st = with_st_dialog st (dialog_body df inp st)"

text \<open>An insertion sort by timestamp, for the concrete inputs.\<close>

fun insert_ts :: "row \<Rightarrow> row list \<Rightarrow> row list" where
  "insert_ts r [] = [r]"
| "insert_ts r (x # xs) = (if ts_le (r_ts r) (r_ts x) then r # x # xs else x # insert_ts r xs)"

definition sort_ts :: "row list \<Rightarrow> row list" where
  "sort_ts rs = foldr insert_ts rs []"

definition reading :: "string \<Rightarrow> instant \<Rightarrow> rat option \<Rightarrow> row" where
  "reading p t v =
     \<lparr>r_cells = [(''pld'', JStr p), (''asset_type'', JStr ''Pump''), (''timestamp'', JNum (of_int t))]
                 @ (case v of None \<Rightarrow> [] | Some q \<Rightarrow> [(''flow'', JNum q)]),
      r_ts = Some t\<rparr>"

definition readings_frame :: "row list \<Rightarrow> dataframe" where
  "readings_frame rs = \<lparr>df_columns = [''pld'', ''asset_type'', ''timestamp'', ''flow''],
                         df_numeric = [''flow''], df_rows = rs\<rparr>"

definition gauge_input :: dialog_input where
  "gauge_input = \<lparr>asset_choice = 0, type_choice = Gauge, parameter_choice = 0,
                   mode_choice = Individual, aggregation_choice = AggSum, columns_choice = [],
                   min_input = 100, max_input = 0, add_clicked = True\<rparr>"

definition mixed_entries :: "json list" where
  "mixed_entries =
     [JObj [(''pld'', JStr ''A1''), (''asset_type'', JStr ''Pump''), (''timestamp'', JNum 1),
            (''parameters'', JObj [(''flow'', JNum 5)])],
      JObj [(''pld'', JStr ''F1''), (''asset_type'', JStr ''Fan''), (''timestamp'', JNum 2),
            (''parameters'', JObj [(''rpm'', JNum 7)])]]"

definition mixed_frame :: dataframe where
  "mixed_frame =
     \<lparr>df_columns = [''pld'', ''asset_type'', ''timestamp'', ''flow'', ''rpm''],
      df_numeric = [''flow'', ''rpm''],
      df_rows = [\<lparr>r_cells = [(''pld'', JStr ''A1''), (''asset_type'', JStr ''Pump''),
                               (''timestamp'', JNum 1), (''flow'', JNum 5)],
                   r_ts = Some 1\<rparr>,
                 \<lparr>r_cells = [(''pld'', JStr ''F1''), (''asset_type'', JStr ''Fan''),
                               (''timestamp'', JNum 2), (''rpm'', JNum 7)],
                   r_ts = Some 2\<rparr>]\<rparr>"

definition nameless :: "instant \<Rightarrow> rat \<Rightarrow> row" where
  "nameless t q =
     \<lparr>r_cells = [(''pld'', JNull), (''asset_type'', JStr ''Pump''),
                 (''timestamp'', JNum (of_int t)), (''flow'', JNum q)],
      r_ts = Some t\<rparr>"

definition pump_daily :: "agg \<Rightarrow> chart_config" where
  "pump_daily a = \<lparr>asset_type = JStr ''Pump'', ctype = LineChart, parameter = Some ''flow'',
                    display_mode = Some Grouped, aggregation = Some a, parameters = None,
                    min_val = None, max_val = None\<rparr>"


text \<open>
  For the concrete inputs: the exact sum and mean, which is what the library computes
  on the small whole numbers used there, and the text with two decimals of a number
  from 0 to below 1000 that has no further decimals.
\<close>

definition exact_agg :: "('c \<Rightarrow> rat option) \<Rightarrow> agg \<Rightarrow> 'c list \<Rightarrow> rat option" where
  "exact_agg val a xs =
     (let vs = present (map val xs)
      in case a of
           AggSum \<Rightarrow> Some (sum_list vs)
         | AggMean \<Rightarrow> if vs = [] then None else Some (sum_list vs / of_nat (length vs)))"





definition gap_readings :: "row list" where
  "gap_readings = [reading ''A1'' 5 (Some 10), reading ''A1'' (Timestamp 2 + 7) (Some 20)]"



section \<open>The date range\<close>

lemma in_range_chart_df:
  "r \<in> set (df_rows (chart_df df config from_date to_date)) \<longleftrightarrow>
     r \<in> set (df_rows df) \<and> asset_type_is (asset_type config) r \<and>
     in_range (from_datetime from_date) (to_datetime to_date) r"
  by (simp add: chart_df_def)

lemma end_of_day_after_to_datetime: "to_datetime d < end_of_day_us d"
  by (simp add: to_datetime_def end_of_day_us_def ns_per_second_def)

lemma next_midnight_after_to_datetime: "to_datetime d < next_midnight d"
  by (simp add: to_datetime_def next_midnight_def Timestamp_def ns_per_day_def
      ns_per_second_def algebra_simps)

lemma kept_rows_end_at_last_second:
  "r \<in> set (df_rows (chart_df df config from_date to_date)) \<Longrightarrow>
   \<exists>t. r_ts r = Some t \<and> Timestamp from_date \<le> t \<and>
       t \<le> Timestamp to_date + ns_per_day - ns_per_second"
  by (auto simp: chart_df_def in_range_def from_datetime_def to_datetime_def
      split: option.splits)

lemma last_microsecond_never_kept:
  "r_ts r = Some (end_of_day_us to_date) \<Longrightarrow>
   r \<notin> set (df_rows (chart_df df config from_date to_date))"
  using end_of_day_after_to_datetime [of to_date]
  by (auto simp: chart_df_def in_range_def)

text \<open>
  C1. The claim: the date range of a chart is inclusive at both ends, so a record at
  23:59:59.999999 of the to-date is among the filtered rows and a record at 00:00:00 of
  the next day is not. The code ends the range at 23:59:59.000000 of the to-date. With
  2024-01-01 (day 19723) as from-date and to-date and three Pump records, at 00:00:00,
  at 23:59:59.999999 and at 00:00:00 of 2024-01-02, only the first one is kept: the
  record of the last microsecond of the to-date is dropped.
\<close>

theorem C1_last_microsecond_excluded:
  "df_rows (chart_df (pump_frame [Timestamp 19723, end_of_day_us 19723, next_midnight 19723])
              pump_line 19723 19723)
     = [pump_row (Timestamp 19723)]"
  by (simp add: chart_df_def pump_frame_def pump_line_def pump_row_def asset_type_is_def
      in_range_def from_datetime_def to_datetime_def end_of_day_us_def next_midnight_def
      Timestamp_def ns_per_day_def ns_per_second_def)

section \<open>Normalisation\<close>

lemma map_of_fold_update:
  "distinct (map fst xs) \<Longrightarrow>
   map_of (fold (\<lambda>kv acc. AList.update (fst kv) (snd kv) acc) xs d) k
     = (case map_of xs k of Some v \<Rightarrow> Some v | None \<Rightarrow> map_of d k)"
proof (induction xs arbitrary: d)
  case Nil
  then show ?case by simp
next
  case (Cons a xs)
  then have "map_of xs (fst a) = None"
    by (simp add: map_of_eq_None_iff)
  with Cons show ?case
    by (cases a) (auto simp: update_conv' split: option.splits)
qed

lemma map_of_dict_update:
  "map_of (dict_update d other) k
     = (case map_of other k of Some v \<Rightarrow> Some v | None \<Rightarrow> map_of d k)"
  unfolding dict_update_def
  by (simp add: map_of_fold_update distinct_clearjunk map_of_clearjunk)

lemma dict_get_dict_update:
  "dict_get (dict_update d other) k
     = (case map_of other k of Some v \<Rightarrow> v | None \<Rightarrow> dict_get d k)"
  by (simp add: dict_get_def map_of_dict_update split: option.splits)

lemma flat_record_has_timestamp:
  "flat_record e = Some fr \<Longrightarrow> ''timestamp'' \<in> fst ` set fr"
proof -
  assume "flat_record e = Some fr"
  then have "map_of fr ''timestamp'' \<noteq> None"
    by (cases e) (auto simp: map_of_dict_update Let_def split: option.splits json.splits)
  then show ?thesis by (simp add: map_of_eq_None_iff)
qed



lemma flatten_all_timestamp:
  "flatten_all es = Some frs \<Longrightarrow> fr \<in> set frs \<Longrightarrow> ''timestamp'' \<in> fst ` set fr"
proof (induction es arbitrary: frs)
  case Nil
  then show ?case by simp
next
  case (Cons e es)
  then show ?case
    by (auto split: option.splits dest: flat_record_has_timestamp)
qed

lemma set_first_seen [simp]: "set (first_seen xs) = set xs"
  by (simp add: first_seen_def)

lemma set_frame_columns:
  "set (frame_columns records) = (\<Union>fr \<in> set records. fst ` set fr)"
  by (auto simp: frame_columns_def)

lemma timestamp_column_iff:
  assumes "flatten_all es = Some frs"
  shows "''timestamp'' \<in> set (frame_columns frs) \<longleftrightarrow> frs \<noteq> []"
proof
  assume "''timestamp'' \<in> set (frame_columns frs)"
  then show "frs \<noteq> []" by (auto simp: set_frame_columns)
next
  assume "frs \<noteq> []"
  then obtain fr where "fr \<in> set frs" by (cases frs) auto
  with assms have "''timestamp'' \<in> fst ` set fr" by (rule flatten_all_timestamp)
  with \<open>fr \<in> set frs\<close> show "''timestamp'' \<in> set (frame_columns frs)"
    unfolding set_frame_columns by blast
qed

lemma load_Parsed_JArr:
  assumes "flatten_all entries = Some records"
  shows "load_and_process_data parse is_number (Parsed (JArr entries)) =
     (if records = [] then (empty_frame, Some SchemaError)
      else (\<lparr>df_columns = frame_columns records,
             df_numeric = filter (\<lambda>c. c \<noteq> ''timestamp'' \<and>
                             is_number (map (\<lambda>fr. map_of fr c) records)) (frame_columns records),
             df_rows = dropna (map (\<lambda>fr. \<lparr>r_cells = fr,
                          r_ts = parse (map (\<lambda>fr. dict_get fr ''timestamp'') records)
                                   (dict_get fr ''timestamp'')\<rparr>) records)\<rparr>, None))"
  using assms timestamp_column_iff [OF assms]
  by (simp add: load_and_process_data_def Let_def)

lemma load_error_empty:
  "snd (load_and_process_data parse is_number up) \<noteq> None \<Longrightarrow>
   fst (load_and_process_data parse is_number up) = empty_frame"
  by (auto simp: load_and_process_data_def Let_def split: upload.splits option.splits if_splits)





lemma load_two_entries:
  "load_and_process_data parse_epoch numbers_only (Parsed (JArr two_entries))
     = (two_entries_frame, None)"
  by (simp add: load_and_process_data_def Let_def frame_columns_def first_seen_def dict_get_def
      dict_update_def dropna_def parse_epoch_def numbers_only_def two_entries_def
      two_entries_frame_def clearjunk.simps)


lemma flat_record_parameters:
  assumes "map_of entry ''parameters'' = Some (JObj ps)"
  shows "flat_record (JObj entry) =
     Some (dict_update [(''pld'', dict_get entry ''pld''),
                        (''asset_type'', dict_get entry ''asset_type''),
                        (''timestamp'', dict_get entry ''timestamp'')] ps)"
  using assms by (simp add: Let_def)

lemma flatten_all_member:
  "flatten_all es = Some frs \<Longrightarrow> e \<in> set es \<Longrightarrow> flat_record e = Some fr \<Longrightarrow> fr \<in> set frs"
  by (induction es arbitrary: frs) (auto split: option.splits)

lemma row_in_dropna:
  "\<lparr>r_cells = fr, r_ts = Some t\<rparr> \<in> set (dropna (map (\<lambda>fr. \<lparr>r_cells = fr, r_ts = f fr\<rparr>) xs))
     \<longleftrightarrow> fr \<in> set xs \<and> f fr = Some t"
  by (auto simp: dropna_def)

lemma flatten_all_objects:
  "\<forall>e \<in> set es. \<exists>kvs. e = JObj kvs \<Longrightarrow> \<exists>frs. flatten_all es = Some frs"
proof (induction es)
  case Nil
  then show ?case by simp
next
  case (Cons e es)
  then obtain kvs frs where "e = JObj kvs" and "flatten_all es = Some frs" by auto
  then show ?case by simp
qed

text \<open>
  C10. In a sequence of object entries, an entry whose parameters object has a key pld,
  asset\_type or timestamp does not make the normalisation fail: the entry is flattened
  without an exception, the sequence is flattened, and the load gives a frame and no
  error. The flattened record carries, under each of these keys, the value of the
  parameters object. The value that is parsed for this record is the timestamp of the
  parameters object: the record is a row of the frame, with instant \<open>t\<close>, exactly when
  that value parses to \<open>t\<close>.
\<close>

theorem C10_parameters_take_precedence:
  assumes objs: "\<forall>e \<in> set entries. \<exists>kvs. e = JObj kvs"
    and mem: "JObj entry \<in> set entries"
    and ps: "map_of entry ''parameters'' = Some (JObj ps)"
  shows "\<exists>fr records df.
     flat_record (JObj entry) = Some fr \<and>
     (\<forall>k v. k \<in> {''pld'', ''asset_type'', ''timestamp''} \<and> map_of ps k = Some v
         \<longrightarrow> dict_get fr k = v) \<and>
     flatten_all entries = Some records \<and> fr \<in> set records \<and>
     load_and_process_data parse is_number (Parsed (JArr entries)) = (df, None) \<and>
     (\<forall>v t. map_of ps ''timestamp'' = Some v \<longrightarrow>
        (\<lparr>r_cells = fr, r_ts = Some t\<rparr> \<in> set (df_rows df)
           \<longleftrightarrow> parse (map (\<lambda>fr. dict_get fr ''timestamp'') records) v = Some t))"
proof -
  let ?fr = "dict_update [(''pld'', dict_get entry ''pld''),
                        (''asset_type'', dict_get entry ''asset_type''),
                        (''timestamp'', dict_get entry ''timestamp'')] ps"
  have fr: "flat_record (JObj entry) = Some ?fr"
    using ps by (rule flat_record_parameters)
  have over: "\<And>k v. map_of ps k = Some v \<Longrightarrow> dict_get ?fr k = v"
    by (simp add: dict_get_dict_update)
  from objs obtain records where fl: "flatten_all entries = Some records"
    using flatten_all_objects by blast
  let ?col = "map (\<lambda>fr. dict_get fr ''timestamp'') records"
  from fl mem fr have in_records: "?fr \<in> set records"
    by (rule flatten_all_member)
  then have ne: "records \<noteq> []" by auto
  obtain df where df: "load_and_process_data parse is_number (Parsed (JArr entries)) = (df, None)"
    and rows: "df_rows df = dropna (map (\<lambda>fr. \<lparr>r_cells = fr,
                          r_ts = parse ?col (dict_get fr ''timestamp'')\<rparr>) records)"
    using load_Parsed_JArr [OF fl, of parse is_number] ne by simp
  have "\<And>v t. map_of ps ''timestamp'' = Some v \<Longrightarrow>
        (\<lparr>r_cells = ?fr, r_ts = Some t\<rparr> \<in> set (df_rows df) \<longleftrightarrow> parse ?col v = Some t)"
    unfolding rows row_in_dropna using in_records over by simp
  with fr over fl in_records df show ?thesis by blast
qed

theorem C10_parameters_take_precedence_witness:
  "JObj reserved_entry \<in> set [JObj reserved_entry] \<and>
   map_of reserved_entry ''parameters''
     = Some (JObj [(''flow'', JNum 5), (''timestamp'', JNum 7), (''pld'', JStr ''B2'')]) \<and>
   flat_record (JObj reserved_entry)
     = Some [(''pld'', JStr ''B2''), (''asset_type'', JStr ''Pump''),
             (''timestamp'', JNum 7), (''flow'', JNum 5)] \<and>
   (\<exists>fr records df.
     flat_record (JObj reserved_entry) = Some fr \<and>
     (\<forall>k v. k \<in> {''pld'', ''asset_type'', ''timestamp''} \<and>
         map_of [(''flow'', JNum 5), (''timestamp'', JNum 7), (''pld'', JStr ''B2'')] k = Some v
         \<longrightarrow> dict_get fr k = v) \<and>
     flatten_all [JObj reserved_entry] = Some records \<and> fr \<in> set records \<and>
     load_and_process_data parse_epoch numbers_only (Parsed (JArr [JObj reserved_entry])) = (df, None) \<and>
     (\<forall>v t. map_of [(''flow'', JNum 5), (''timestamp'', JNum 7), (''pld'', JStr ''B2'')] ''timestamp'' = Some v \<longrightarrow>
        (\<lparr>r_cells = fr, r_ts = Some t\<rparr> \<in> set (df_rows df)
           \<longleftrightarrow> parse_epoch (map (\<lambda>fr. dict_get fr ''timestamp'') records) v = Some t)))"
proof -
  have a: "\<forall>e \<in> set [JObj reserved_entry]. \<exists>kvs. e = JObj kvs" by simp
  have b: "JObj reserved_entry \<in> set [JObj reserved_entry]" by simp
  have c: "map_of reserved_entry ''parameters''
     = Some (JObj [(''flow'', JNum 5), (''timestamp'', JNum 7), (''pld'', JStr ''B2'')])"
    by (simp add: reserved_entry_def)
  have d: "flat_record (JObj reserved_entry)
     = Some [(''pld'', JStr ''B2''), (''asset_type'', JStr ''Pump''),
             (''timestamp'', JNum 7), (''flow'', JNum 5)]"
    by (simp add: reserved_entry_def dict_get_def dict_update_def clearjunk.simps AList.delete_eq)
  from b c d C10_parameters_take_precedence [OF a b c, of parse_epoch numbers_only]
  show ?thesis by blast
qed

section \<open>The session\<close>

lemma upload_handler_data:
  "uploaded_file \<noteq> NoFile \<Longrightarrow>
   data (upload_handler parse is_number uploaded_file st)
     = fst (load_and_process_data parse is_number uploaded_file)"
  by (cases uploaded_file) (simp_all add: upload_handler_def Let_def)

lemma upload_handler_charts:
  "uploaded_file \<noteq> NoFile \<Longrightarrow>
   charts (upload_handler parse is_number uploaded_file st)
     = (if df_empty (fst (load_and_process_data parse is_number uploaded_file))
        then charts st else [])"
  by (cases uploaded_file) (simp_all add: upload_handler_def Let_def)

lemma load_undated:
  "load_and_process_data parse_epoch numbers_only (Parsed (JArr undated_entries))
     = (\<lparr>df_columns = [''pld'', ''asset_type'', ''timestamp'', ''flow''],
         df_numeric = [''flow''], df_rows = []\<rparr>, None)"
  by (simp add: load_and_process_data_def Let_def frame_columns_def first_seen_def dict_get_def
      dict_update_def dropna_def parse_epoch_def numbers_only_def undated_entries_def
      clearjunk.simps)

text \<open>
  C3. The claim: every upload that produces a dataset clears the chart configurations,
  also when the new dataset is empty. The handler resets the charts under the guard
  \<^verbatim>\<open>if not st.session_state.data.empty\<close>: an upload of one entry without a timestamp
  gives a dataset with no row and no error, and the chart of the session stays.
\<close>

theorem C3_empty_upload_keeps_charts:
  "load_and_process_data parse_epoch numbers_only (Parsed (JArr undated_entries))
     = (\<lparr>df_columns = [''pld'', ''asset_type'', ''timestamp'', ''flow''],
         df_numeric = [''flow''], df_rows = []\<rparr>, None) \<and>
   charts busy_session = [pump_line] \<and>
   charts (upload_handler parse_epoch numbers_only (Parsed (JArr undated_entries)) busy_session)
     = [pump_line]"
  by (simp add: upload_handler_charts load_undated df_empty_def busy_session_def)

text \<open>
  C3, amended. An upload whose dataset is not empty clears all chart configurations,
  whatever the asset types of the old and the new dataset; an upload whose dataset is
  empty leaves the chart configurations as they were. In both cases the dataset of the
  session is the one the load returned.
\<close>

theorem C3_charts_reset_unless_empty:
  assumes "uploaded_file \<noteq> NoFile"
  shows "(let st' = upload_handler parse is_number uploaded_file st
          in data st' = fst (load_and_process_data parse is_number uploaded_file) \<and>
             charts st' = (if df_empty (data st') then charts st else []))"
  using assms by (simp add: Let_def upload_handler_data upload_handler_charts)

theorem C3_charts_reset_unless_empty_witness:
  "Parsed (JArr two_entries) \<noteq> NoFile \<and>
   charts (upload_handler parse_epoch numbers_only (Parsed (JArr two_entries)) busy_session) = []"
proof -
  have h: "Parsed (JArr two_entries) \<noteq> NoFile" by simp
  from C3_charts_reset_unless_empty [OF h, of parse_epoch numbers_only busy_session]
  have "charts (upload_handler parse_epoch numbers_only (Parsed (JArr two_entries)) busy_session)
     = (if df_empty two_entries_frame then charts busy_session else [])"
    by (simp add: Let_def load_two_entries)
  then show ?thesis by (simp add: df_empty_def two_entries_frame_def)
qed

text \<open>
  C4. The claim: a failed upload leaves the dataset of the session as it was. The handler
  stores what the load returns, and the load returns an empty frame with its error:
  after a malformed file, and after a file holding the empty list (no timestamp column),
  the dataset of the session is the empty frame, not the frame loaded before.
\<close>

theorem C4_failed_upload_replaces_dataset:
  "snd (load_and_process_data parse_epoch numbers_only Malformed) = Some IngestError \<and>
   snd (load_and_process_data parse_epoch numbers_only (Parsed (JArr []))) = Some SchemaError \<and>
   data busy_session = two_entries_frame \<and>
   data (upload_handler parse_epoch numbers_only Malformed busy_session) = empty_frame \<and>
   data (upload_handler parse_epoch numbers_only (Parsed (JArr [])) busy_session) = empty_frame \<and>
   two_entries_frame \<noteq> empty_frame"
  by (simp add: upload_handler_data load_and_process_data_def busy_session_def
      two_entries_frame_def empty_frame_def frame_columns_def first_seen_def)

text \<open>
  C4, amended. After an upload attempt that fails with an error, the dataset of the
  session is the empty dataset, whatever was loaded before; the chart configurations
  are left as they were.
\<close>

theorem C4_failed_upload_empties_dataset:
  assumes "snd (load_and_process_data parse is_number uploaded_file) = Some e"
  shows "data (upload_handler parse is_number uploaded_file st) = empty_frame \<and>
         charts (upload_handler parse is_number uploaded_file st) = charts st"
proof -
  from assms have nf: "uploaded_file \<noteq> NoFile"
    by (auto simp: load_and_process_data_def)
  from assms have "fst (load_and_process_data parse is_number uploaded_file) = empty_frame"
    by (simp add: load_error_empty)
  with nf show ?thesis
    by (simp add: upload_handler_data upload_handler_charts df_empty_def empty_frame_def)
qed

theorem C4_failed_upload_empties_dataset_witness:
  "snd (load_and_process_data parse_epoch numbers_only Malformed) = Some IngestError \<and>
   data (upload_handler parse_epoch numbers_only Malformed busy_session) = empty_frame \<and>
   charts (upload_handler parse_epoch numbers_only Malformed busy_session) = charts busy_session"
proof -
  have h: "snd (load_and_process_data parse_epoch numbers_only Malformed) = Some IngestError"
    by (simp add: load_and_process_data_def)
  from h C4_failed_upload_empties_dataset [OF h] show ?thesis by (rule conjI)
qed

section \<open>The configuration dialog\<close>

lemma configure_chart_dialog_raises:
  "configure_chart_dialog df inp st = (st, Some TypeError)"
  by (simp add: configure_chart_dialog_def with_st_dialog_def)




lemma load_mixed:
  "load_and_process_data parse_epoch numbers_only (Parsed (JArr mixed_entries))
     = (mixed_frame, None)"
  by (simp add: load_and_process_data_def Let_def frame_columns_def first_seen_def dict_get_def
      dict_update_def dropna_def parse_epoch_def numbers_only_def mixed_entries_def
      mixed_frame_def clearjunk.simps)

lemma all_cols_columns: "all_cols df t = df_columns df"
  by (simp add: all_cols_def modal_df_def)

lemma numeric_cols_columns:
  "numeric_cols df t = filter (\<lambda>c. c \<in> set (df_numeric df)) (df_columns df)"
  by (simp add: numeric_cols_def modal_df_def)

text \<open>
  C9. The claim: the columns offered for an asset type are those present on a record of
  that type. The dialog computes both domains from the slice of the chosen type (lines
  82-84), but a row selection keeps every column of the dataset: with one Pump record
  (flow) and one Fan record (rpm), the slice of Pump is the one Pump record, which has
  no rpm, and rpm is among its columns and among its numeric columns. In addition the
  call of the dialog ends with the TypeError of its \<^verbatim>\<open>with\<close> statement before these
  lines, so that no domain is offered at all.
\<close>

theorem C9_other_type_column_offered:
  "load_and_process_data parse_epoch numbers_only (Parsed (JArr mixed_entries))
     = (mixed_frame, None) \<and>
   map (\<lambda>r. map_of (r_cells r) ''rpm'') (df_rows (modal_df mixed_frame (JStr ''Pump''))) = [None] \<and>
   ''rpm'' \<in> set (all_cols mixed_frame (JStr ''Pump'')) \<and>
   ''rpm'' \<in> set (numeric_cols mixed_frame (JStr ''Pump'')) \<and>
   configure_chart_dialog mixed_frame gauge_input busy_session = (busy_session, Some TypeError)"
  by (simp add: load_mixed all_cols_columns numeric_cols_columns configure_chart_dialog_raises)
     (simp add: mixed_frame_def modal_df_def asset_type_is_def)

section \<open>Sorting and grouping\<close>











lemma sorts_by_timestamp_filter:
  "sorts_by_timestamp srt \<Longrightarrow> mset (filter P (srt rs)) = mset (filter P rs)"
  unfolding sorts_by_timestamp_def by (metis mset_filter)





lemma distinct_first_seen [simp]: "distinct (first_seen xs)"
  by (simp add: first_seen_def)




lemma set_present: "set (present xs) = {v. Some v \<in> set xs}"
  by (induction xs rule: present.induct) auto




section \<open>The line chart\<close>


lemma render_grouped:
  assumes "display_mode config = Some Grouped" and "aggregation config = Some a"
    and "parameter config = Some param" and "param \<in> set (df_columns df)"
  shows "render_line_chart srt bin_agg df config =
     Some [\<lparr>s_name = JStr (param @ '' ('' @ agg_name a @ '')''),
            s_data = map (\<lambda>p. (Some (Timestamp (fst p)), snd p))
                       (grouped_points bin_agg a param (df_rows df))\<rparr>]"
  using assms by (simp add: render_line_chart_def)


text \<open>
  A row without a pld (an entry without the key, which is not a record of the data
  model) is in no group, and so in no series.
\<close>

lemma row_without_pld_in_no_series:
  "render_line_chart sort_ts bin_agg
      (readings_frame [nameless 5 10, reading ''A1'' 9 (Some 20)]) pump_line
     = Some [\<lparr>s_name = JStr ''A1'', s_data = [(Some 9, Some 20)]\<rparr>]"
  by (simp add: render_line_chart_def readings_frame_def pump_line_def individual_series_def
      group_keys_def sort_keys_def first_seen_def pld_def dict_get_def nameless_def reading_def
      group_rows_def sort_ts_def point_def num_value_def)




lemma day_bins_iff:
  "d \<in> set (day_bins rs) \<longleftrightarrow>
     (\<exists>t1 t2. Some t1 \<in> r_ts ` set rs \<and> Some t2 \<in> r_ts ` set rs \<and>
              day_of t1 \<le> d \<and> d \<le> day_of t2)"
proof -
  let ?ds = "map day_of (present (map r_ts rs))"
  have ds: "set ?ds = {day_of t |t. Some t \<in> r_ts ` set rs}"
    by (auto simp: set_present)
  show ?thesis
  proof (cases "?ds = []")
    case True
    then have "present (map r_ts rs) = []" by simp
    then have "\<And>t. Some t \<notin> r_ts ` set rs"
      using set_present [of "map r_ts rs"] by auto
    with True show ?thesis by (simp add: day_bins_def)
  next
    case False
    then have ne: "set ?ds \<noteq> {}" by simp
    have bins: "set (day_bins rs) = {Min (set ?ds)..Max (set ?ds)}"
      using False by (simp add: day_bins_def Let_def)
    show ?thesis
    proof
      assume "d \<in> set (day_bins rs)"
      with bins have lo: "Min (set ?ds) \<le> d" and hi: "d \<le> Max (set ?ds)" by auto
      from ne have "Min (set ?ds) \<in> set ?ds" and "Max (set ?ds) \<in> set ?ds"
        using Min_in [of "set ?ds"] Max_in [of "set ?ds"] by blast+
      then obtain t1 t2 where "Some t1 \<in> r_ts ` set rs" "Min (set ?ds) = day_of t1"
        and "Some t2 \<in> r_ts ` set rs" "Max (set ?ds) = day_of t2"
        unfolding ds by blast
      with lo hi show "\<exists>t1 t2. Some t1 \<in> r_ts ` set rs \<and> Some t2 \<in> r_ts ` set rs \<and>
              day_of t1 \<le> d \<and> d \<le> day_of t2" by metis
    next
      assume "\<exists>t1 t2. Some t1 \<in> r_ts ` set rs \<and> Some t2 \<in> r_ts ` set rs \<and>
              day_of t1 \<le> d \<and> d \<le> day_of t2"
      then obtain t1 t2 where t1: "Some t1 \<in> r_ts ` set rs" and t2: "Some t2 \<in> r_ts ` set rs"
        and lo: "day_of t1 \<le> d" and hi: "d \<le> day_of t2" by blast
      from t1 t2 have "day_of t1 \<in> set ?ds" and "day_of t2 \<in> set ?ds"
        unfolding ds by blast+
      then have "Min (set ?ds) \<le> day_of t1" and "day_of t2 \<le> Max (set ?ds)"
        using Min_le [of "set ?ds"] Max_ge [of "set ?ds"] by blast+
      with lo hi bins show "d \<in> set (day_bins rs)" by auto
    qed
  qed
qed

lemma sorted_day_bins: "sorted (day_bins rs) \<and> distinct (day_bins rs)"
  by (simp add: day_bins_def Let_def)

lemma grouped_points_days: "map fst (grouped_points bin_agg a param rs) = day_bins rs"
  by (simp add: grouped_points_def comp_def)

lemma agg_cells_none:
  "present (map val xs) = [] \<Longrightarrow>
   agg_cells reduce val a xs = (case a of AggSum \<Rightarrow> Some 0 | AggMean \<Rightarrow> None)"
  by (simp add: agg_cells_def)

text \<open>
  C5. The claim: the Grouped line chart has a point only for a day with a contributing
  row. The bins of \<^verbatim>\<open>pd.Grouper(freq='D')\<close> are all the days from the first to the
  last: with one row on day 0 and one on day 2, the series of the sum has three points,
  and the point of day 1, which no row is in, has the value 0.
\<close>

theorem C5_empty_day_emitted:
  "render_line_chart sort_ts (exact_agg snd) (readings_frame gap_readings) (pump_daily AggSum)
     = Some [\<lparr>s_name = JStr ''flow (sum)'',
              s_data = [(Some (Timestamp 0), Some 10), (Some (Timestamp 1), Some 0),
                        (Some (Timestamp 2), Some 20)]\<rparr>] \<and>
   bucket 1 gap_readings = []"
  by (simp add: render_line_chart_def readings_frame_def pump_daily_def grouped_points_def
      day_bins_def bucket_def day_of_def Timestamp_def ns_per_day_def ns_per_second_def
      reading_def num_value_def agg_cells_def exact_agg_def agg_name_def upto.simps
      gap_readings_def point_def)

text \<open>
  C5, amended. For every filtered row set and every Grouped line chart on a column of
  the frame, the series has one point for each calendar day from the day of the
  earliest row to the day of the latest row, in ascending order: the days with a
  contributing row and every day between them. The value of a day is the aggregate
  that the library computes from the values present in its rows; a day with no
  contributing row is emitted with the value 0 under sum and with a null value under
  mean.
\<close>

theorem C5_grouped_series:
  assumes mode: "display_mode config = Some Grouped"
    and ag: "aggregation config = Some a"
    and par: "parameter config = Some param"
    and col: "param \<in> set (df_columns df)"
  shows "\<exists>pts. render_line_chart srt bin_agg df config =
       Some [\<lparr>s_name = JStr (param @ '' ('' @ agg_name a @ '')''),
              s_data = map (\<lambda>p. (Some (Timestamp (fst p)), snd p)) pts\<rparr>] \<and>
     sorted (map fst pts) \<and> distinct (map fst pts) \<and>
     (\<forall>d. d \<in> fst ` set pts \<longleftrightarrow>
        (\<exists>t1 t2. Some t1 \<in> r_ts ` set (df_rows df) \<and> Some t2 \<in> r_ts ` set (df_rows df) \<and>
                 day_of t1 \<le> d \<and> d \<le> day_of t2)) \<and>
     (\<forall>p \<in> set pts.
        snd p = agg_cells bin_agg snd a (map (point param) (bucket (fst p) (df_rows df))) \<and>
        (bucket (fst p) (df_rows df) = [] \<longrightarrow>
           snd p = (case a of AggSum \<Rightarrow> Some 0 | AggMean \<Rightarrow> None)))"
proof -
  let ?pts = "grouped_points bin_agg a param (df_rows df)"
  have r: "render_line_chart srt bin_agg df config =
       Some [\<lparr>s_name = JStr (param @ '' ('' @ agg_name a @ '')''),
              s_data = map (\<lambda>p. (Some (Timestamp (fst p)), snd p)) ?pts\<rparr>]"
    using mode ag par col by (rule render_grouped)
  have s: "sorted (map fst ?pts) \<and> distinct (map fst ?pts)"
    unfolding grouped_points_days by (rule sorted_day_bins)
  have "fst ` set ?pts = set (day_bins (df_rows df))"
    using grouped_points_days [of bin_agg a param "df_rows df"] by (metis set_map)
  then have d: "\<forall>d. d \<in> fst ` set ?pts \<longleftrightarrow>
        (\<exists>t1 t2. Some t1 \<in> r_ts ` set (df_rows df) \<and> Some t2 \<in> r_ts ` set (df_rows df) \<and>
                 day_of t1 \<le> d \<and> d \<le> day_of t2)"
    by (simp add: day_bins_iff)
  have v: "\<forall>p \<in> set ?pts.
        snd p = agg_cells bin_agg snd a (map (point param) (bucket (fst p) (df_rows df))) \<and>
        (bucket (fst p) (df_rows df) = [] \<longrightarrow>
           snd p = (case a of AggSum \<Rightarrow> Some 0 | AggMean \<Rightarrow> None))"
    by (auto simp: grouped_points_def agg_cells_none)
  from r s d v show ?thesis by blast
qed

lemma render_gap_readings_mean:
  "render_line_chart sort_ts (exact_agg snd) (readings_frame gap_readings) (pump_daily AggMean)
     = Some [\<lparr>s_name = JStr ''flow (mean)'',
              s_data = [(Some (Timestamp 0), Some 10), (Some (Timestamp 1), None),
                        (Some (Timestamp 2), Some 20)]\<rparr>]"
  by (simp add: render_line_chart_def readings_frame_def pump_daily_def grouped_points_def
      day_bins_def bucket_def day_of_def Timestamp_def ns_per_day_def ns_per_second_def
      reading_def num_value_def agg_cells_def exact_agg_def agg_name_def upto.simps
      gap_readings_def point_def)

theorem C5_grouped_series_witness:
  "display_mode (pump_daily AggMean) = Some Grouped \<and>
   aggregation (pump_daily AggMean) = Some AggMean \<and>
   parameter (pump_daily AggMean) = Some ''flow'' \<and>
   ''flow'' \<in> set (df_columns (readings_frame gap_readings)) \<and>
   bucket 1 (df_rows (readings_frame gap_readings)) = [] \<and>
   render_line_chart sort_ts (exact_agg snd) (readings_frame gap_readings) (pump_daily AggMean)
     = Some [\<lparr>s_name = JStr ''flow (mean)'',
              s_data = [(Some (Timestamp 0), Some 10), (Some (Timestamp 1), None),
                        (Some (Timestamp 2), Some 20)]\<rparr>] \<and>
   (\<exists>pts. render_line_chart sort_ts (exact_agg snd) (readings_frame gap_readings) (pump_daily AggMean) =
       Some [\<lparr>s_name = JStr (''flow'' @ '' ('' @ agg_name AggMean @ '')''),
              s_data = map (\<lambda>p. (Some (Timestamp (fst p)), snd p)) pts\<rparr>] \<and>
     sorted (map fst pts) \<and> distinct (map fst pts) \<and>
     (\<forall>d. d \<in> fst ` set pts \<longleftrightarrow>
        (\<exists>t1 t2. Some t1 \<in> r_ts ` set (df_rows (readings_frame gap_readings)) \<and>
                 Some t2 \<in> r_ts ` set (df_rows (readings_frame gap_readings)) \<and>
                 day_of t1 \<le> d \<and> d \<le> day_of t2)) \<and>
     (\<forall>p \<in> set pts.
        snd p = agg_cells (exact_agg snd) snd AggMean
                  (map (point ''flow'') (bucket (fst p) (df_rows (readings_frame gap_readings)))) \<and>
        (bucket (fst p) (df_rows (readings_frame gap_readings)) = [] \<longrightarrow>
           snd p = (case AggMean of AggSum \<Rightarrow> Some 0 | AggMean \<Rightarrow> None))))"
proof -
  let ?df = "readings_frame gap_readings"
  have a: "display_mode (pump_daily AggMean) = Some Grouped" by (simp add: pump_daily_def)
  have b: "aggregation (pump_daily AggMean) = Some AggMean" by (simp add: pump_daily_def)
  have c: "parameter (pump_daily AggMean) = Some ''flow''" by (simp add: pump_daily_def)
  have d: "''flow'' \<in> set (df_columns ?df)" by (simp add: readings_frame_def)
  have e: "bucket 1 (df_rows ?df) = []"
    by (simp add: readings_frame_def gap_readings_def bucket_def reading_def day_of_def
        Timestamp_def ns_per_day_def ns_per_second_def)
  note inst = C5_grouped_series [OF a b c d, of sort_ts "exact_agg snd"]
  from a b c d e render_gap_readings_mean inst show ?thesis by (intro conjI)
qed

section \<open>The big number\<close>



















end
